theory Spec2Isabelle
  imports Main
begin

section \<open>JavaScript values\<close>

text \<open>
  The values that flow through \<^verbatim>\<open>src/fetcher.js\<close>: option fields, URLs, payload
  objects, transport results. Numbers are the integers (timestamps, byte lengths, status
  codes, timeouts are whole numbers) plus NaN, which matters for truthiness. An object is
  the list of its property definitions in the order an object literal writes them; a
  later definition of a key overrides an earlier one, as in \<^verbatim>\<open>{a: 1, ...d}\<close>.
  Functions are not values of this type: a filter, the emitter and the transport are
  HOL functions of their own types. Inherited (prototype) properties are not modelled;
  the names read by the code (error, statusCode, details, xml, byteLength) are none.
\<close>

datatype jsval =
    JUndefined
  | JNull
  | JBool bool
  | JNum int
  | JNaN
  | JStr string
  | JObj "(string \<times> jsval) list"

text \<open>What a \<^verbatim>\<open>throw\<close> carries: the engine's TypeError, or any value thrown by a collaborator.\<close>

datatype thrown = TypeError | Thrown jsval

fun truthy :: "jsval \<Rightarrow> bool" where
  "truthy JUndefined = False"
| "truthy JNull = False"
| "truthy (JBool b) = b"
| "truthy (JNum n) = (n \<noteq> 0)"
| "truthy JNaN = False"
| "truthy (JStr s) = (s \<noteq> [])"
| "truthy (JObj ps) = True"

text \<open>\<^verbatim>\<open>a || b\<close>\<close>

definition js_or :: "jsval \<Rightarrow> jsval \<Rightarrow> jsval" where
  "js_or a b = (if truthy a then a else b)"

definition nullish :: "jsval \<Rightarrow> bool" where
  "nullish v = (v = JUndefined \<or> v = JNull)"

text \<open>A destructuring default \<^verbatim>\<open>{x = d}\<close> applies when the field is undefined.\<close>

definition dflt :: "jsval \<Rightarrow> jsval \<Rightarrow> jsval" where
  "dflt v d = (if v = JUndefined then d else v)"

text \<open>The decimal name of an index, for the indexed properties of a string.\<close>

fun decimal :: "nat \<Rightarrow> string" where
  "decimal n =
     (if n < 10 then [char_of (48 + n)]
      else decimal (n div 10) @ [char_of (48 + n mod 10)])"

declare decimal.simps [simp del]

fun index_props :: "nat \<Rightarrow> string \<Rightarrow> (string \<times> jsval) list" where
  "index_props i [] = []"
| "index_props i (c # cs) = (decimal i, JStr [c]) # index_props (Suc i) cs"

text \<open>
  The own enumerable properties that \<^verbatim>\<open>...v\<close> copies into an object literal: those of an
  object, the indexed characters of a string, none for undefined, null, a boolean or a
  number.
\<close>

fun own_props :: "jsval \<Rightarrow> (string \<times> jsval) list" where
  "own_props (JObj ps) = ps"
| "own_props (JStr s) = index_props 0 s"
| "own_props JUndefined = []"
| "own_props JNull = []"
| "own_props (JBool b) = []"
| "own_props (JNum n) = []"
| "own_props JNaN = []"

text \<open>Looking a key up in a list of property definitions: the last definition wins.\<close>

definition obj_get :: "(string \<times> jsval) list \<Rightarrow> string \<Rightarrow> jsval option" where
  "obj_get ps k = map_of (rev ps) k"

text \<open>\<^verbatim>\<open>v[k]\<close> for a value that is neither undefined nor null.\<close>

fun read_prop :: "jsval \<Rightarrow> string \<Rightarrow> jsval" where
  "read_prop (JObj ps) k = (case obj_get ps k of Some v \<Rightarrow> v | None \<Rightarrow> JUndefined)"
| "read_prop (JStr s) k =
     (if k = ''length'' then JNum (int (length s))
      else case obj_get (index_props 0 s) k of Some v \<Rightarrow> v | None \<Rightarrow> JUndefined)"
| "read_prop JUndefined k = JUndefined"
| "read_prop JNull k = JUndefined"
| "read_prop (JBool b) k = JUndefined"
| "read_prop (JNum n) k = JUndefined"
| "read_prop JNaN k = JUndefined"

text \<open>\<^verbatim>\<open>v.k\<close>: a TypeError on undefined and null.\<close>

definition member_access :: "jsval \<Rightarrow> string \<Rightarrow> thrown + jsval" where
  "member_access v k = (if nullish v then Inl TypeError else Inr (read_prop v k))"

text \<open>\<^verbatim>\<open>v?.k\<close>\<close>

definition opt_chain :: "jsval \<Rightarrow> string \<Rightarrow> jsval" where
  "opt_chain v k = (if nullish v then JUndefined else read_prop v k)"

section \<open>The collaborators\<close>

text \<open>
  A URL template filter: a function of the URL that returns the next URL or throws.
\<close>

type_synonym filter = "jsval \<Rightarrow> thrown + jsval"

text \<open>
  The argument of \<^verbatim>\<open>addURLTemplateFilter\<close>: a function, or any other value.
\<close>

datatype arg = Function filter | Value jsval

fun typeof :: "arg \<Rightarrow> string" where
  "typeof (Function f) = ''function''"
| "typeof (Value JUndefined) = ''undefined''"
| "typeof (Value JNull) = ''object''"
| "typeof (Value (JBool b)) = ''boolean''"
| "typeof (Value (JNum n)) = ''number''"
| "typeof (Value JNaN) = ''number''"
| "typeof (Value (JStr s)) = ''string''"
| "typeof (Value (JObj ps)) = ''object''"

record fetching_options =
  timeout :: jsval
  withCredentials :: jsval

text \<open>
  What \<^verbatim>\<open>await this.urlHandler.get(url, this.fetchingOptions)\<close> comes to: the value the
  promise is fulfilled with, the value it is rejected with (or that \<^verbatim>\<open>get\<close> throws), or
  nothing, when the promise stays pending.
\<close>

datatype awaited = Fulfilled jsval | Failed thrown | Forever

type_synonym url_handler = "jsval \<Rightarrow> fetching_options \<Rightarrow> awaited"

text \<open>The emitter returns (its value is ignored) or throws.\<close>

type_synonym emitter = "string \<Rightarrow> jsval \<Rightarrow> thrown option"

section \<open>The class Fetcher\<close>

text \<open>
  The fields \<^verbatim>\<open>urlHandler\<close> and \<^verbatim>\<open>fetchingOptions\<close> are undefined (None) until
  \<^verbatim>\<open>setOptions\<close> runs.
\<close>

record fetcher =
  URLTemplateFilters :: "filter list"
  urlHandler :: "url_handler option"
  fetchingOptions :: "fetching_options option"

definition constructor :: fetcher where
  "constructor = \<lparr>URLTemplateFilters = [], urlHandler = None, fetchingOptions = None\<rparr>"

text \<open>
  The options object of \<^verbatim>\<open>setOptions\<close>. A handler field is a handler or absent (None);
  the other two fields are any value, undefined when the object does not have them.
\<close>

record options =
  o_urlHandler :: "url_handler option"
  o_urlhandler :: "url_handler option"
  o_timeout :: jsval
  o_withCredentials :: jsval

definition no_options :: options where
  "no_options = \<lparr>o_urlHandler = None, o_urlhandler = None,
                  o_timeout = JUndefined, o_withCredentials = JUndefined\<rparr>"

text \<open>
  \<^verbatim>\<open>setOptions(options = {})\<close>. The imported default handler and the imported constant
  \<^verbatim>\<open>DEFAULT_TIMEOUT\<close> are not in the source file: they are the first two parameters.
  An omitted argument is None.
\<close>

definition setOptions ::
  "url_handler \<Rightarrow> jsval \<Rightarrow> options option \<Rightarrow> fetcher \<Rightarrow> fetcher" where
  "setOptions default_handler DEFAULT_TIMEOUT arg this =
     (let opts = (case arg of None \<Rightarrow> no_options | Some given \<Rightarrow> given) in
      this\<lparr>urlHandler :=
             Some (case o_urlHandler opts of
                     Some h \<Rightarrow> h
                   | None \<Rightarrow> (case o_urlhandler opts of
                                 Some h \<Rightarrow> h
                               | None \<Rightarrow> default_handler)),
           fetchingOptions :=
             Some \<lparr>timeout = js_or (o_timeout opts) DEFAULT_TIMEOUT,
                   withCredentials = js_or (o_withCredentials opts) (JBool False)\<rparr>\<rparr>)"

definition addURLTemplateFilter :: "arg \<Rightarrow> fetcher \<Rightarrow> fetcher" where
  "addURLTemplateFilter a this =
     (if typeof a = ''function''
      then (case a of
              Function f \<Rightarrow> this\<lparr>URLTemplateFilters := URLTemplateFilters this @ [f]\<rparr>
            | Value v \<Rightarrow> this)
      else this)"

text \<open>\<^verbatim>\<open>Array.prototype.pop\<close> leaves an empty array empty.\<close>

definition removeURLTemplateFilter :: "fetcher \<Rightarrow> fetcher" where
  "removeURLTemplateFilter this =
     this\<lparr>URLTemplateFilters := butlast (URLTemplateFilters this)\<rparr>"

definition countURLTemplateFilters :: "fetcher \<Rightarrow> nat" where
  "countURLTemplateFilters this = length (URLTemplateFilters this)"

definition clearURLTemplateFilters :: "fetcher \<Rightarrow> fetcher" where
  "clearURLTemplateFilters this = this\<lparr>URLTemplateFilters := []\<rparr>"

section \<open>fetchVAST\<close>

text \<open>
  The argument object of \<^verbatim>\<open>fetchVAST\<close>. A field the caller leaves out is undefined.
\<close>

record request =
  url :: jsval
  maxWrapperDepth :: jsval
  emitter :: emitter
  wrapperDepth :: jsval
  previousUrl :: jsval
  wrapperAd :: jsval

text \<open>
  The destructuring of the parameter, with its three defaults:
  \<^verbatim>\<open>wrapperDepth = 0, previousUrl = null, wrapperAd = null\<close>.
\<close>

definition destructure :: "request \<Rightarrow> request" where
  "destructure given =
     given\<lparr>wrapperDepth := dflt (wrapperDepth given) (JNum 0),
           previousUrl := dflt (previousUrl given) JNull,
           wrapperAd := dflt (wrapperAd given) JNull\<rparr>"

text \<open>
  What one call does that its environment can see, in the order it does it: a call of
  the emitter with its event name and payload, the call of the handler's \<^verbatim>\<open>get\<close>,
  \<^verbatim>\<open>console.error\<close>, and the calls of the promise's \<^verbatim>\<open>resolve\<close> and \<^verbatim>\<open>reject\<close>.
\<close>

datatype event =
    Emit string jsval
  | Get jsval fetching_options
  | ConsoleError thrown
  | Resolve jsval
  | Reject jsval

text \<open>
  The outcome of a call: its events, and the state of the bitrate estimator after it.
\<close>

record 'e run =
  events :: "event list"
  estimator :: 'e

text \<open>
  The imported \<^verbatim>\<open>updateEstimatedBitrate(byteLength, duration)\<close> is not in the source
  file: \<^verbatim>\<open>fetchVAST\<close> takes it as a parameter, a function of the two arguments and the
  estimator's state that returns the new state or throws.
\<close>

type_synonym 'e estimator_update = "jsval \<Rightarrow> int \<Rightarrow> 'e \<Rightarrow> thrown + 'e"

text \<open>Lines 88 to 90: \<^verbatim>\<open>this.URLTemplateFilters.forEach((filter) => { url = filter(url); })\<close>\<close>

fun applyFilters :: "filter list \<Rightarrow> jsval \<Rightarrow> thrown + jsval" where
  "applyFilters [] u = Inr u"
| "applyFilters (f # fs) u =
     (case f u of Inl e \<Rightarrow> Inl e | Inr u' \<Rightarrow> applyFilters fs u')"

text \<open>Lines 93 to 100: the payload of VAST-resolving.\<close>

definition resolving_payload :: "jsval \<Rightarrow> request \<Rightarrow> jsval \<Rightarrow> jsval" where
  "resolving_payload u req t =
     JObj [(''url'', u),
           (''previousUrl'', previousUrl req),
           (''wrapperDepth'', wrapperDepth req),
           (''maxWrapperDepth'', maxWrapperDepth req),
           (''timeout'', t),
           (''wrapperAd'', wrapperAd req)]"

text \<open>
  Lines 104 to 112: the object \<^verbatim>\<open>info\<close>, for a \<^verbatim>\<open>data\<close> that is neither undefined nor
  null. The spread \<^verbatim>\<open>...data.details\<close> is written last.
\<close>

definition resolved_info :: "jsval \<Rightarrow> request \<Rightarrow> jsval \<Rightarrow> int \<Rightarrow> jsval" where
  "resolved_info u req data deltaTime =
     JObj ([(''url'', u),
            (''previousUrl'', previousUrl req),
            (''wrapperDepth'', wrapperDepth req),
            (''error'', js_or (read_prop data ''error'') JNull),
            (''duration'', JNum deltaTime),
            (''statusCode'', js_or (read_prop data ''statusCode'') JNull)]
           @ own_props (read_prop data ''details''))"

text \<open>
  Lines 103 to 120, once the awaited promise is fulfilled with \<^verbatim>\<open>data\<close>: the events, the
  estimator's state, and the exception that ends the \<^verbatim>\<open>try\<close> block, if any. Reading
  \<^verbatim>\<open>data.error\<close> throws a TypeError when \<^verbatim>\<open>data\<close> is undefined or null.
\<close>

definition after_await ::
  "request \<Rightarrow> 'e estimator_update \<Rightarrow> jsval \<Rightarrow> jsval \<Rightarrow> int \<Rightarrow> 'e
     \<Rightarrow> event list \<times> 'e \<times> thrown option" where
  "after_await req upd u data deltaTime est =
     (case member_access data ''error'' of
        Inl e \<Rightarrow> ([], est, Some e)
      | Inr err \<Rightarrow>
          (let info = resolved_info u req data deltaTime in
           case emitter req ''VAST-resolved'' info of
             Some e \<Rightarrow> ([Emit ''VAST-resolved'' info], est, Some e)
           | None \<Rightarrow>
               (case upd (opt_chain (opt_chain data ''details'') ''byteLength'') deltaTime est of
                  Inl e \<Rightarrow> ([Emit ''VAST-resolved'' info], est, Some e)
                | Inr est' \<Rightarrow>
                    ([Emit ''VAST-resolved'' info,
                      if truthy err then Reject err else Resolve (read_prop data ''xml'')],
                     est', None))))"

text \<open>
  Lines 92 to 120, the \<^verbatim>\<open>try\<close> block. \<^verbatim>\<open>this.fetchingOptions.timeout\<close> and
  \<^verbatim>\<open>this.urlHandler.get\<close> throw a TypeError before \<^verbatim>\<open>setOptions\<close> has run. The two
  readings of \<^verbatim>\<open>Date.now()\<close> are parameters; they are whole milliseconds, which
  \<^verbatim>\<open>Math.round\<close> leaves as they are.
\<close>

definition try_block ::
  "fetcher \<Rightarrow> request \<Rightarrow> 'e estimator_update \<Rightarrow> jsval \<Rightarrow> int \<Rightarrow> int \<Rightarrow> 'e
     \<Rightarrow> event list \<times> 'e \<times> thrown option" where
  "try_block this req upd u timeBeforeGet timeAfterGet est =
     (case fetchingOptions this of
        None \<Rightarrow> ([], est, Some TypeError)
      | Some fo \<Rightarrow>
          (let payload = resolving_payload u req (timeout fo) in
           case emitter req ''VAST-resolving'' payload of
             Some e \<Rightarrow> ([Emit ''VAST-resolving'' payload], est, Some e)
           | None \<Rightarrow>
               (case urlHandler this of
                  None \<Rightarrow> ([Emit ''VAST-resolving'' payload], est, Some TypeError)
                | Some handler \<Rightarrow>
                    (case handler u fo of
                       Forever \<Rightarrow> ([Emit ''VAST-resolving'' payload, Get u fo], est, None)
                     | Failed e \<Rightarrow> ([Emit ''VAST-resolving'' payload, Get u fo], est, Some e)
                     | Fulfilled data \<Rightarrow>
                         (case after_await req upd u data (timeAfterGet - timeBeforeGet) est of
                            (evs, est', raised) \<Rightarrow>
                              ([Emit ''VAST-resolving'' payload, Get u fo] @ evs,
                               est', raised))))))"

text \<open>
  \<^verbatim>\<open>fetchVAST\<close>, lines 76 to 125. The filters run outside the \<^verbatim>\<open>try\<close> block: a filter
  that throws ends the executor with nothing emitted, logged or settled. An exception
  inside the block is caught and passed to \<^verbatim>\<open>console.error\<close>.
\<close>

definition fetchVAST ::
  "fetcher \<Rightarrow> request \<Rightarrow> 'e estimator_update \<Rightarrow> int \<Rightarrow> int \<Rightarrow> 'e \<Rightarrow> 'e run" where
  "fetchVAST this given upd timeBeforeGet timeAfterGet est =
     (let req = destructure given in
      case applyFilters (URLTemplateFilters this) (url req) of
        Inl e \<Rightarrow> \<lparr>events = [], estimator = est\<rparr>
      | Inr u \<Rightarrow>
          (case try_block this req upd u timeBeforeGet timeAfterGet est of
             (evs, est', None) \<Rightarrow> \<lparr>events = evs, estimator = est'\<rparr>
           | (evs, est', Some e) \<Rightarrow> \<lparr>events = evs @ [ConsoleError e], estimator = est'\<rparr>))"

text \<open>The settlements of the returned promise, and the payloads emitted under a name.\<close>

fun settlements :: "event list \<Rightarrow> event list" where
  "settlements [] = []"
| "settlements (Resolve v # es) = Resolve v # settlements es"
| "settlements (Reject v # es) = Reject v # settlements es"
| "settlements (Emit n p # es) = settlements es"
| "settlements (Get u fo # es) = settlements es"
| "settlements (ConsoleError e # es) = settlements es"

fun emitted :: "string \<Rightarrow> event list \<Rightarrow> jsval list" where
  "emitted n [] = []"
| "emitted n (Emit m p # es) = (if m = n then p # emitted n es else emitted n es)"
| "emitted n (Get u fo # es) = emitted n es"
| "emitted n (ConsoleError e # es) = emitted n es"
| "emitted n (Resolve v # es) = emitted n es"
| "emitted n (Reject v # es) = emitted n es"

section \<open>Observations on a run\<close>

text \<open>The own property \<open>k\<close> of a value, when it has one.\<close>

definition own_field :: "jsval \<Rightarrow> string \<Rightarrow> jsval option" where
  "own_field v k = obj_get (own_props v) k"

text \<open>The field \<open>k\<close> of each payload emitted under the name \<open>n\<close>.\<close>

definition emitted_field :: "string \<Rightarrow> string \<Rightarrow> event list \<Rightarrow> jsval option list" where
  "emitted_field n k evs = map (\<lambda>p. own_field p k) (emitted n evs)"

text \<open>The URLs passed to the handler's \<^verbatim>\<open>get\<close>.\<close>

fun requested :: "event list \<Rightarrow> jsval list" where
  "requested [] = []"
| "requested (Get u fo # es) = u # requested es"
| "requested (Emit n p # es) = requested es"
| "requested (ConsoleError e # es) = requested es"
| "requested (Resolve v # es) = requested es"
| "requested (Reject v # es) = requested es"

text \<open>
  No call of the handler and no VAST-resolved emission comes before the first
  VAST-resolving emission.
\<close>

fun resolving_first :: "event list \<Rightarrow> bool" where
  "resolving_first [] = True"
| "resolving_first (Emit n p # es) =
     (if n = ''VAST-resolving'' then True
      else if n = ''VAST-resolved'' then False
      else resolving_first es)"
| "resolving_first (Get u fo # es) = False"
| "resolving_first (ConsoleError e # es) = resolving_first es"
| "resolving_first (Resolve v # es) = resolving_first es"
| "resolving_first (Reject v # es) = resolving_first es"

section \<open>The bitrate estimator\<close>

text \<open>
  Modelled from the spec: \<^verbatim>\<open>updateEstimatedBitrate\<close> of \<^verbatim>\<open>./parser/bitrate\<close>, which the
  source file imports and calls on line 114 and which is not part of it. The spec gives
  \<^verbatim>\<open>update(byteLength, elapsedMs)\<close> as a side effect on the shared estimator state, done
  for a transfer that reports a byte length and skipped without error otherwise. The
  state is the list of the samples taken so far; an absent byte length is the undefined
  that \<^verbatim>\<open>data?.details?.byteLength\<close> yields.
\<close>

definition updateEstimatedBitrate :: "(jsval \<times> int) list estimator_update" where
  "updateEstimatedBitrate byteLength duration samples =
     (if byteLength = JUndefined then Inr samples
      else Inr (samples @ [(byteLength, duration)]))"

section \<open>Sequences of pipeline operations\<close>

datatype op = Add arg | RemoveLast | Clear

fun apply_op :: "op \<Rightarrow> fetcher \<Rightarrow> fetcher" where
  "apply_op (Add a) this = addURLTemplateFilter a this"
| "apply_op RemoveLast this = removeURLTemplateFilter this"
| "apply_op Clear this = clearURLTemplateFilters this"

text \<open>
  The count as the spec words it: the successful adds minus the removals among the
  operations since the last clear, floored at 0.
\<close>

fun since_clear :: "op list \<Rightarrow> op list \<Rightarrow> op list" where
  "since_clear acc [] = acc"
| "since_clear acc (Clear # ops) = since_clear [] ops"
| "since_clear acc (Add a # ops) = since_clear (acc @ [Add a]) ops"
| "since_clear acc (RemoveLast # ops) = since_clear (acc @ [RemoveLast]) ops"

fun successful_adds :: "op list \<Rightarrow> int" where
  "successful_adds [] = 0"
| "successful_adds (Add a # ops) =
     (if typeof a = ''function'' then 1 + successful_adds ops else successful_adds ops)"
| "successful_adds (RemoveLast # ops) = successful_adds ops"
| "successful_adds (Clear # ops) = successful_adds ops"

fun removals :: "op list \<Rightarrow> int" where
  "removals [] = 0"
| "removals (RemoveLast # ops) = 1 + removals ops"
| "removals (Add a # ops) = removals ops"
| "removals (Clear # ops) = removals ops"

definition spec_count :: "op list \<Rightarrow> int" where
  "spec_count ops =
     max 0 (successful_adds (since_clear [] ops) - removals (since_clear [] ops))"

text \<open>
  A counter that floors at each removal: up by one on a successful add, down by one on a
  removal unless it is 0 already, back to 0 on a clear.
\<close>

fun counter_step :: "op \<Rightarrow> int \<Rightarrow> int" where
  "counter_step (Add a) c = (if typeof a = ''function'' then c + 1 else c)"
| "counter_step RemoveLast c = max 0 (c - 1)"
| "counter_step Clear c = 0"

section \<open>Example collaborators\<close>

text \<open>
  An emitter that returns, one that throws on one event name, a handler that fulfils its
  promise with a given result, a filter that appends to the URL, a fetcher configured
  with defaults, and the request and the result of the spec's scenario.
\<close>

definition quiet :: emitter where
  "quiet n p = None"

definition throwing_on :: "string \<Rightarrow> thrown \<Rightarrow> emitter" where
  "throwing_on name e n p = (if n = name then Some e else None)"

definition answering :: "jsval \<Rightarrow> url_handler" where
  "answering data u fo = Fulfilled data"

definition suffixing :: "string \<Rightarrow> filter" where
  "suffixing s u = (case u of JStr t \<Rightarrow> Inr (JStr (t @ s)) | _ \<Rightarrow> Inr u)"

definition configured :: "url_handler \<Rightarrow> fetcher" where
  "configured h = setOptions h (JNum 120000) None constructor"

definition sample_request :: "emitter \<Rightarrow> jsval \<Rightarrow> request" where
  "sample_request em ad =
     \<lparr>url = JStr ''http://a/vast.xml'', maxWrapperDepth = JNum 1, emitter = em,
      wrapperDepth = JNum 0, previousUrl = JUndefined, wrapperAd = ad\<rparr>"

definition sample_result :: "(string \<times> jsval) list \<Rightarrow> jsval" where
  "sample_result details =
     JObj [(''xml'', JStr ''<VAST/>''), (''statusCode'', JNum 200), (''details'', JObj details)]"

text \<open>
  An estimator that records every call with its two arguments, and one that throws.
\<close>

definition recording :: "(jsval \<times> int) list estimator_update" where
  "recording byteLength duration samples = Inr (samples @ [(byteLength, duration)])"

definition failing_update :: "thrown \<Rightarrow> (jsval \<times> int) list estimator_update" where
  "failing_update e byteLength duration samples = Inl e"

section \<open>Auxiliary facts\<close>

lemma destructure_simps:
  "url (destructure given) = url given"
  "emitter (destructure given) = emitter given"
  "maxWrapperDepth (destructure given) = maxWrapperDepth given"
  "wrapperDepth (destructure given) = dflt (wrapperDepth given) (JNum 0)"
  "previousUrl (destructure given) = dflt (previousUrl given) JNull"
  "wrapperAd (destructure given) = dflt (wrapperAd given) JNull"
  by (simp_all add: destructure_def)

lemma obj_get_append:
  "obj_get (ps @ qs) k = (case obj_get qs k of Some v \<Rightarrow> Some v | None \<Rightarrow> obj_get ps k)"
  by (simp add: obj_get_def map_add_def split: option.split)

lemma emitted_append: "emitted n (xs @ ys) = emitted n xs @ emitted n ys"
  by (induction n xs rule: emitted.induct) simp_all

lemma settlements_append: "settlements (xs @ ys) = settlements xs @ settlements ys"
  by (induction xs rule: settlements.induct) simp_all

lemma requested_append: "requested (xs @ ys) = requested xs @ requested ys"
  by (induction xs rule: requested.induct) simp_all

lemma fetchVAST_completed:
  assumes "applyFilters (URLTemplateFilters this) (url given) = Inr u"
    and "fetchingOptions this = Some fo"
    and "urlHandler this = Some h"
    and "h u fo = Fulfilled data"
    and "\<not> nullish data"
    and "emitter given ''VAST-resolving'' (resolving_payload u (destructure given) (timeout fo)) = None"
    and "emitter given ''VAST-resolved'' (resolved_info u (destructure given) data (t1 - t0)) = None"
    and "upd (opt_chain (opt_chain data ''details'') ''byteLength'') (t1 - t0) est = Inr est'"
  shows "fetchVAST this given upd t0 t1 est =
     \<lparr>events = [Emit ''VAST-resolving'' (resolving_payload u (destructure given) (timeout fo)),
                Get u fo,
                Emit ''VAST-resolved'' (resolved_info u (destructure given) data (t1 - t0)),
                if truthy (read_prop data ''error'') then Reject (read_prop data ''error'')
                else Resolve (read_prop data ''xml'')],
      estimator = est'\<rparr>"
  using assms
  by (simp add: fetchVAST_def try_block_def after_await_def member_access_def destructure_simps Let_def)

lemma emitted_after_await:
  "\<not> nullish data \<Longrightarrow>
   emitted ''VAST-resolved'' (fst (after_await req upd u data d est)) = [resolved_info u req data d]"
  by (simp add: after_await_def member_access_def Let_def split: option.split sum.split)

lemma fetchVAST_resolved_payload:
  assumes "applyFilters (URLTemplateFilters this) (url given) = Inr u"
    and "fetchingOptions this = Some fo"
    and "urlHandler this = Some h"
    and "h u fo = Fulfilled data"
    and "\<not> nullish data"
    and "emitter given ''VAST-resolving'' (resolving_payload u (destructure given) (timeout fo)) = None"
  shows "emitted ''VAST-resolved'' (events (fetchVAST this given upd t0 t1 est)) =
           [resolved_info u (destructure given) data (t1 - t0)]"
  using assms emitted_after_await [of data "destructure given" upd u "t1 - t0" est]
  by (auto simp add: fetchVAST_def try_block_def destructure_simps Let_def emitted_append
        split: prod.split option.split)

lemma own_field_resolved_info:
  "own_field (resolved_info u req data d) k =
     (case own_field (read_prop data ''details'') k of
        Some v \<Rightarrow> Some v
      | None \<Rightarrow>
          obj_get [(''url'', u), (''previousUrl'', previousUrl req),
                   (''wrapperDepth'', wrapperDepth req),
                   (''error'', js_or (read_prop data ''error'') JNull),
                   (''duration'', JNum d),
                   (''statusCode'', js_or (read_prop data ''statusCode'') JNull)] k)"
  by (simp only: own_field_def resolved_info_def own_props.simps obj_get_append)

lemma applyFilters_append:
  "applyFilters (fs @ gs) u =
     (case applyFilters fs u of Inl e \<Rightarrow> Inl e | Inr u' \<Rightarrow> applyFilters gs u')"
  by (induction fs arbitrary: u) (simp_all split: sum.split)

lemma applyFilters_total:
  "applyFilters (map (\<lambda>g v. Inr (g v)) gs) u = Inr (fold (\<lambda>g v. g v) gs u)"
  by (induction gs arbitrary: u) simp_all

lemma after_await_quiet:
  "requested (fst (after_await req upd u data d est)) = []"
  "emitted ''VAST-resolving'' (fst (after_await req upd u data d est)) = []"
  by (simp_all add: after_await_def Let_def split: option.split sum.split)

lemma fetchVAST_resolving_and_get:
  assumes "applyFilters (URLTemplateFilters this) (url given) = Inr u"
    and "fetchingOptions this = Some fo"
    and "urlHandler this = Some h"
    and "emitter given ''VAST-resolving'' (resolving_payload u (destructure given) (timeout fo)) = None"
  shows "emitted ''VAST-resolving'' (events (fetchVAST this given upd t0 t1 est)) =
           [resolving_payload u (destructure given) (timeout fo)]"
    and "requested (events (fetchVAST this given upd t0 t1 est)) = [u]"
  using assms
  by (auto simp add: fetchVAST_def try_block_def destructure_simps Let_def emitted_append
        requested_append split_beta after_await_quiet split: option.split awaited.split)

lemma fetchVAST_resolving_first:
  "resolving_first (events (fetchVAST this given upd t0 t1 est))"
  by (auto simp add: fetchVAST_def try_block_def Let_def
        split: sum.split prod.split option.split awaited.split)

lemma fetchVAST_first_event:
  assumes "applyFilters (URLTemplateFilters this) (url given) = Inr u"
    and "fetchingOptions this = Some fo"
  shows "take 1 (events (fetchVAST this given upd t0 t1 est)) =
           [Emit ''VAST-resolving'' (resolving_payload u (destructure given) (timeout fo))]"
  using assms
  by (auto simp add: fetchVAST_def try_block_def destructure_simps Let_def
        split: sum.split prod.split option.split awaited.split)

lemma settlements_after_await:
  "length (settlements (fst (after_await req upd u data d est))) \<le> Suc 0"
  by (simp add: after_await_def Let_def split: option.split sum.split)

lemma fetchVAST_settles_at_most_once:
  "length (settlements (events (fetchVAST this given upd t0 t1 est))) \<le> 1"
  by (auto simp add: fetchVAST_def try_block_def Let_def settlements_append split_beta
        settlements_after_await split: sum.split option.split awaited.split)

lemma fetchVAST_first_two_events:
  assumes "applyFilters (URLTemplateFilters this) (url given) = Inr u"
    and "fetchingOptions this = Some fo"
    and "urlHandler this = Some h"
    and "emitter given ''VAST-resolving'' (resolving_payload u (destructure given) (timeout fo)) = None"
  shows "take 2 (events (fetchVAST this given upd t0 t1 est)) =
           [Emit ''VAST-resolving'' (resolving_payload u (destructure given) (timeout fo)),
            Get u fo]"
  using assms
  by (auto simp add: fetchVAST_def try_block_def destructure_simps Let_def split_beta
        split: option.split awaited.split)

lemma fetchVAST_resolving_emitted:
  assumes "applyFilters (URLTemplateFilters this) (url given) = Inr u"
    and "fetchingOptions this = Some fo"
  shows "emitted ''VAST-resolving'' (events (fetchVAST this given upd t0 t1 est)) =
           [resolving_payload u (destructure given) (timeout fo)]"
  using assms
  by (auto simp add: fetchVAST_def try_block_def destructure_simps Let_def emitted_append
        split_beta after_await_quiet split: option.split awaited.split)

lemma fetchVAST_requested_at_most:
  assumes "applyFilters (URLTemplateFilters this) (url given) = Inr u"
  shows "requested (events (fetchVAST this given upd t0 t1 est)) = []
       \<or> requested (events (fetchVAST this given upd t0 t1 est)) = [u]"
  using assms
  by (auto simp add: fetchVAST_def try_block_def destructure_simps Let_def requested_append
        split_beta after_await_quiet split: option.split awaited.split)

lemma after_await_estimator:
  "fst (snd (after_await req upd u data d est)) =
     (if \<not> nullish data \<and> emitter req ''VAST-resolved'' (resolved_info u req data d) = None
      then (case upd (opt_chain (opt_chain data ''details'') ''byteLength'') d est of
              Inl e \<Rightarrow> est | Inr est' \<Rightarrow> est')
      else est)"
  by (simp add: after_await_def member_access_def Let_def split: option.split sum.split)

lemma fetchVAST_estimator:
  assumes "applyFilters (URLTemplateFilters this) (url given) = Inr u"
    and "fetchingOptions this = Some fo"
    and "urlHandler this = Some h"
    and "h u fo = Fulfilled data"
  shows "estimator (fetchVAST this given upd t0 t1 est) =
     (if \<not> nullish data
         \<and> emitter given ''VAST-resolving'' (resolving_payload u (destructure given) (timeout fo)) = None
         \<and> emitter given ''VAST-resolved'' (resolved_info u (destructure given) data (t1 - t0)) = None
      then (case upd (opt_chain (opt_chain data ''details'') ''byteLength'') (t1 - t0) est of
              Inl e \<Rightarrow> est | Inr est' \<Rightarrow> est')
      else est)"
  using assms
  by (auto simp add: fetchVAST_def try_block_def destructure_simps Let_def split_beta
        after_await_estimator split: option.split)

lemma fetchVAST_estimator_frame:
  "estimator (fetchVAST this given upd t0 t1 est) = est
   \<or> (\<exists>u fo h data. applyFilters (URLTemplateFilters this) (url given) = Inr u
          \<and> fetchingOptions this = Some fo \<and> urlHandler this = Some h
          \<and> h u fo = Fulfilled data)"
  by (auto simp add: fetchVAST_def try_block_def destructure_simps Let_def split_beta
        split: sum.split option.split awaited.split)

lemma falsy_values:
  "(\<not> truthy v) =
     (v = JUndefined \<or> v = JNull \<or> v = JBool False \<or> v = JNum 0 \<or> v = JNaN \<or> v = JStr [])"
  by (cases v) auto

lemma non_callable_args: "(typeof a \<noteq> ''function'') = (\<exists>v. a = Value v)"
proof (cases a)
  case (Function f) then show ?thesis by simp
next
  case (Value v) then show ?thesis by (cases v) simp_all
qed

lemma count_apply_op:
  "int (countURLTemplateFilters (apply_op x this)) = counter_step x (int (countURLTemplateFilters this))"
proof (cases x)
  case (Add a)
  then show ?thesis
    by (cases a) (simp_all add: addURLTemplateFilter_def countURLTemplateFilters_def non_callable_args)
next
  case RemoveLast
  then show ?thesis
    by (simp add: removeURLTemplateFilter_def countURLTemplateFilters_def)
next
  case Clear
  then show ?thesis
    by (simp add: clearURLTemplateFilters_def countURLTemplateFilters_def)
qed

lemma count_fold_apply_op:
  "int (countURLTemplateFilters (fold apply_op ops this))
     = fold counter_step ops (int (countURLTemplateFilters this))"
  by (induction ops arbitrary: this) (simp_all add: count_apply_op)

lemma counter_nonneg: "0 \<le> c \<Longrightarrow> 0 \<le> fold counter_step ops c"
proof (induction ops arbitrary: c)
  case Nil then show ?case by simp
next
  case (Cons x xs)
  have "0 \<le> counter_step x c" using Cons.prems by (cases x) simp_all
  then show ?case using Cons.IH by simp
qed

lemma successful_adds_append:
  "successful_adds (xs @ ys) = successful_adds xs + successful_adds ys"
  by (induction xs rule: successful_adds.induct) simp_all

lemma removals_append: "removals (xs @ ys) = removals xs + removals ys"
  by (induction xs rule: removals.induct) simp_all

lemma counter_above_difference:
  "0 \<le> c \<Longrightarrow> successful_adds acc - removals acc \<le> c \<Longrightarrow>
     successful_adds (since_clear acc ops) - removals (since_clear acc ops)
       \<le> fold counter_step ops c"
proof (induction acc ops arbitrary: c rule: since_clear.induct)
  case (1 acc)
  then show ?case by simp
next
  case (2 acc ops)
  from "2.IH" [of 0] show ?case by simp
next
  case (3 acc a ops)
  from "3.prems" "3.IH" [of "counter_step (Add a) c"] show ?case
    by (simp add: successful_adds_append removals_append)
next
  case (4 acc ops)
  from "4.prems" "4.IH" [of "counter_step RemoveLast c"] show ?case
    by (simp add: successful_adds_append removals_append)
qed

lemmas example_defs =
  configured_def setOptions_def constructor_def no_options_def js_or_def answering_def
  sample_request_def sample_result_def quiet_def throwing_on_def suffixing_def
  destructure_def dflt_def resolving_payload_def resolved_info_def obj_get_def
  nullish_def opt_chain_def updateEstimatedBitrate_def

lemmas run_defs =
  fetchVAST_def try_block_def after_await_def member_access_def Let_def
  emitted_field_def own_field_def

section \<open>The payload of VAST-resolved\<close>

text \<open>
  An example against claim C1 as it is stated. The result's details hold a field \<open>url\<close>;
  the payload emitted under VAST-resolved then carries that value under \<open>url\<close>, not the
  effective URL, which is the one the handler was called with.
\<close>

theorem named_fields_precedence_counterexample:
  "emitted_field ''VAST-resolved'' ''url''
     (events (fetchVAST
        (configured (answering (sample_result [(''url'', JStr ''http://shadow/'')])))
        (sample_request quiet JNull) updateEstimatedBitrate 100 150 []))
     = [Some (JStr ''http://shadow/'')]
   \<and> emitted_field ''VAST-resolved'' ''url''
     (events (fetchVAST
        (configured (answering (sample_result [(''url'', JStr ''http://shadow/'')])))
        (sample_request quiet JNull) updateEstimatedBitrate 100 150 []))
     \<noteq> [Some (JStr ''http://a/vast.xml'')]
   \<and> requested
     (events (fetchVAST
        (configured (answering (sample_result [(''url'', JStr ''http://shadow/'')])))
        (sample_request quiet JNull) updateEstimatedBitrate 100 150 []))
     = [JStr ''http://a/vast.xml'']"
  by (simp add: run_defs example_defs)

text \<open>
  Claim C1, amended. In the payload of VAST-resolved the spread of the result's details
  is written after the named fields, so a field of details takes precedence over the
  named field of the same name: for every key \<open>k\<close>, the payload's value under \<open>k\<close> is the
  value details has under \<open>k\<close> when it has one, and otherwise the value of the named field
  \<open>k\<close> (url, previousUrl, wrapperDepth, error, duration, statusCode), if \<open>k\<close> is one.
  The premises say that the call gets as far as the emission: the filters return, the
  fetcher is configured, the handler's promise is fulfilled with a value that is neither
  undefined nor null, and the emitter returns from VAST-resolving.
\<close>

theorem resolved_details_shadow_named_fields:
  assumes "applyFilters (URLTemplateFilters this) (url given) = Inr u"
    and "fetchingOptions this = Some fo"
    and "urlHandler this = Some h"
    and "h u fo = Fulfilled data"
    and "\<not> nullish data"
    and "emitter given ''VAST-resolving'' (resolving_payload u (destructure given) (timeout fo)) = None"
  shows "emitted_field ''VAST-resolved'' k (events (fetchVAST this given upd t0 t1 est)) =
           [case own_field (read_prop data ''details'') k of
              Some v \<Rightarrow> Some v
            | None \<Rightarrow>
                obj_get [(''url'', u),
                         (''previousUrl'', dflt (previousUrl given) JNull),
                         (''wrapperDepth'', dflt (wrapperDepth given) (JNum 0)),
                         (''error'', js_or (read_prop data ''error'') JNull),
                         (''duration'', JNum (t1 - t0)),
                         (''statusCode'', js_or (read_prop data ''statusCode'') JNull)] k]"
  using fetchVAST_resolved_payload [of this given u fo h data upd t0 t1 est] assms
  by (simp add: emitted_field_def own_field_resolved_info destructure_simps split: option.split)

theorem resolved_details_shadow_named_fields_witness:
  "emitted_field ''VAST-resolved'' ''statusCode''
     (events (fetchVAST
        (configured (answering (sample_result [(''statusCode'', JNum 299)])))
        (sample_request quiet JNull) updateEstimatedBitrate 100 150 []))
     = [Some (JNum 299)]
   \<and> emitted_field ''VAST-resolved'' ''duration''
     (events (fetchVAST
        (configured (answering (sample_result [(''statusCode'', JNum 299)])))
        (sample_request quiet JNull) updateEstimatedBitrate 100 150 []))
     = [Some (JNum 50)]"
proof -
  have "emitted_field ''VAST-resolved'' k
     (events (fetchVAST
        (configured (answering (sample_result [(''statusCode'', JNum 299)])))
        (sample_request quiet JNull) updateEstimatedBitrate 100 150 []))
     = [case own_field (read_prop (sample_result [(''statusCode'', JNum 299)]) ''details'') k of
          Some v \<Rightarrow> Some v
        | None \<Rightarrow>
            obj_get [(''url'', JStr ''http://a/vast.xml''),
                     (''previousUrl'', dflt (previousUrl (sample_request quiet JNull)) JNull),
                     (''wrapperDepth'', dflt (wrapperDepth (sample_request quiet JNull)) (JNum 0)),
                     (''error'', js_or (read_prop (sample_result [(''statusCode'', JNum 299)]) ''error'') JNull),
                     (''duration'', JNum (150 - 100)),
                     (''statusCode'', js_or (read_prop (sample_result [(''statusCode'', JNum 299)]) ''statusCode'') JNull)] k]"
    for k
    by (rule resolved_details_shadow_named_fields
        [of _ _ _ "\<lparr>timeout = JNum 120000, withCredentials = JBool False\<rparr>"
            "answering (sample_result [(''statusCode'', JNum 299)])"])
      (simp_all add: example_defs)
  from this [of "''statusCode''"] this [of "''duration''"] show ?thesis
    by (simp add: own_field_def sample_result_def obj_get_def)
qed

section \<open>Settling the promise\<close>

text \<open>
  The runs without a fault. When the handler's promise is fulfilled with a result and
  every collaborator returns (the filters, the emitter on both events, the estimator),
  the promise is settled exactly once: rejected with the result's \<open>error\<close> when that
  field is truthy, and otherwise resolved with the result's \<open>xml\<close>, the document body.
\<close>

theorem settles_with_error_or_body:
  assumes "applyFilters (URLTemplateFilters this) (url given) = Inr u"
    and "fetchingOptions this = Some fo"
    and "urlHandler this = Some h"
    and "h u fo = Fulfilled data"
    and "\<not> nullish data"
    and "emitter given ''VAST-resolving'' (resolving_payload u (destructure given) (timeout fo)) = None"
    and "emitter given ''VAST-resolved'' (resolved_info u (destructure given) data (t1 - t0)) = None"
    and "upd (opt_chain (opt_chain data ''details'') ''byteLength'') (t1 - t0) est = Inr est'"
  shows "settlements (events (fetchVAST this given upd t0 t1 est)) =
           [if truthy (read_prop data ''error'') then Reject (read_prop data ''error'')
            else Resolve (read_prop data ''xml'')]"
  using assms by (simp add: fetchVAST_completed)

theorem settles_with_error_or_body_witness:
  "settlements
     (events (fetchVAST
        (configured (answering (JObj [(''error'', JStr ''NetworkTimeoutError'')])))
        (sample_request quiet JNull) updateEstimatedBitrate 100 150 []))
     = [Reject (JStr ''NetworkTimeoutError'')]
   \<and> settlements
     (events (fetchVAST
        (configured (answering (sample_result [(''byteLength'', JNum 1000)])))
        (sample_request quiet JNull) updateEstimatedBitrate 100 150 []))
     = [Resolve (JStr ''<VAST/>'')]"
proof -
  let ?fo = "\<lparr>timeout = JNum 120000, withCredentials = JBool False\<rparr>"
  have outcome: "settlements
     (events (fetchVAST (configured (answering (JObj ps)))
        (sample_request quiet JNull) updateEstimatedBitrate 100 150 []))
     = [if truthy (read_prop (JObj ps) ''error'') then Reject (read_prop (JObj ps) ''error'')
        else Resolve (read_prop (JObj ps) ''xml'')]" for ps
    by (rule settles_with_error_or_body
        [of _ _ "JStr ''http://a/vast.xml''" ?fo "answering (JObj ps)" _ _ _ _ _
            "if opt_chain (opt_chain (JObj ps) ''details'') ''byteLength'' = JUndefined then []
             else [(opt_chain (opt_chain (JObj ps) ''details'') ''byteLength'', 150 - 100)]"])
      (simp_all add: configured_def setOptions_def constructor_def no_options_def js_or_def
         answering_def sample_request_def quiet_def nullish_def updateEstimatedBitrate_def)
  from outcome [of "[(''error'', JStr ''NetworkTimeoutError'')]"]
    outcome [of "[(''xml'', JStr ''<VAST/>''), (''statusCode'', JNum 200),
                  (''details'', JObj [(''byteLength'', JNum 1000)])]"]
  show ?thesis by (simp add: obj_get_def sample_result_def)
qed

text \<open>
  Claim C2 does not hold of the code. The transport completes with a result whose
  \<open>error\<close> is set, and the emitter throws on VAST-resolved, or the estimator throws:
  the promise is not rejected with that error, it is never settled. The same holds of a
  result without an error and a throwing estimator: the promise is not resolved with the
  document body. The exception is caught and only passed to \<^verbatim>\<open>console.error\<close>.
\<close>

theorem error_result_never_settles:
  "read_prop (JObj [(''error'', JStr ''NetworkTimeoutError'')]) ''error''
     = JStr ''NetworkTimeoutError''
   \<and> settlements
     (events (fetchVAST
        (configured (answering (JObj [(''error'', JStr ''NetworkTimeoutError'')])))
        (sample_request (throwing_on ''VAST-resolved'' (Thrown (JStr ''boom''))) JNull)
        updateEstimatedBitrate 100 150 []))
     = []
   \<and> settlements
     (events (fetchVAST
        (configured (answering (JObj [(''error'', JStr ''NetworkTimeoutError'')])))
        (sample_request quiet JNull)
        (failing_update (Thrown (JStr ''boom''))) 100 150 []))
     = []
   \<and> settlements
     (events (fetchVAST
        (configured (answering (sample_result [(''byteLength'', JNum 1000)])))
        (sample_request quiet JNull)
        (failing_update (Thrown (JStr ''boom''))) 100 150 []))
     = []"
  by (simp add: run_defs example_defs failing_update_def)

text \<open>
  Claim C3 does not hold of the code. The transport succeeds and the emitter throws on
  VAST-resolved: the exception is caught and passed to \<^verbatim>\<open>console.error\<close>, and neither
  \<^verbatim>\<open>resolve\<close> nor \<^verbatim>\<open>reject\<close> is called, so the returned promise stays pending.
  What holds of every call is \<open>fetchVAST_settles_at_most_once\<close>: at most one settlement.
\<close>

theorem throwing_emitter_never_settles:
  "events (fetchVAST (configured (answering (sample_result [(''byteLength'', JNum 1000)])))
           (sample_request (throwing_on ''VAST-resolved'' (Thrown (JStr ''boom''))) JNull)
           updateEstimatedBitrate 100 150 [])
     = [Emit ''VAST-resolving''
          (JObj [(''url'', JStr ''http://a/vast.xml''), (''previousUrl'', JNull),
                 (''wrapperDepth'', JNum 0), (''maxWrapperDepth'', JNum 1),
                 (''timeout'', JNum 120000), (''wrapperAd'', JNull)]),
        Get (JStr ''http://a/vast.xml'') \<lparr>timeout = JNum 120000, withCredentials = JBool False\<rparr>,
        Emit ''VAST-resolved''
          (JObj [(''url'', JStr ''http://a/vast.xml''), (''previousUrl'', JNull),
                 (''wrapperDepth'', JNum 0), (''error'', JNull), (''duration'', JNum 50),
                 (''statusCode'', JNum 200), (''byteLength'', JNum 1000)]),
        ConsoleError (Thrown (JStr ''boom''))]
   \<and> settlements
        (events (fetchVAST (configured (answering (sample_result [(''byteLength'', JNum 1000)])))
           (sample_request (throwing_on ''VAST-resolved'' (Thrown (JStr ''boom''))) JNull)
           updateEstimatedBitrate 100 150 [])) = []"
  by (simp add: run_defs example_defs)

section \<open>The lineage fields\<close>

text \<open>
  An example against claim C4 as it is stated. The request supplies a \<open>wrapperAd\<close>; the
  payload of VAST-resolving carries it, the payload of VAST-resolved has no such field.
\<close>

theorem wrapperAd_in_resolved_counterexample:
  "emitted_field ''VAST-resolving'' ''wrapperAd''
     (events (fetchVAST (configured (answering (sample_result [(''byteLength'', JNum 1000)])))
        (sample_request quiet (JObj [(''id'', JStr ''wrapper-1'')]))
        updateEstimatedBitrate 100 150 []))
     = [Some (JObj [(''id'', JStr ''wrapper-1'')])]
   \<and> emitted_field ''VAST-resolved'' ''wrapperAd''
     (events (fetchVAST (configured (answering (sample_result [(''byteLength'', JNum 1000)])))
        (sample_request quiet (JObj [(''id'', JStr ''wrapper-1'')]))
        updateEstimatedBitrate 100 150 []))
     = [None]"
  by (simp add: run_defs example_defs)

text \<open>
  Claim C4, amended. The \<open>wrapperDepth\<close>, \<open>previousUrl\<close> and \<open>wrapperAd\<close> of the request,
  an undefined one replaced by its default (0, null, null), are in the payload of
  VAST-resolving as they are, whatever values they are. The payload of VAST-resolved
  carries \<open>wrapperDepth\<close> and \<open>previousUrl\<close> as they are unless the result's details have
  a field of that name, which then takes its place; it has no \<open>wrapperAd\<close> of the request,
  only one that details supply.
\<close>

theorem lineage_fields_in_payloads:
  assumes "applyFilters (URLTemplateFilters this) (url given) = Inr u"
    and "fetchingOptions this = Some fo"
    and "urlHandler this = Some h"
    and "h u fo = Fulfilled data"
    and "\<not> nullish data"
    and "emitter given ''VAST-resolving'' (resolving_payload u (destructure given) (timeout fo)) = None"
  shows "emitted_field ''VAST-resolving'' ''wrapperDepth'' (events (fetchVAST this given upd t0 t1 est))
           = [Some (dflt (wrapperDepth given) (JNum 0))]
     \<and> emitted_field ''VAST-resolving'' ''previousUrl'' (events (fetchVAST this given upd t0 t1 est))
           = [Some (dflt (previousUrl given) JNull)]
     \<and> emitted_field ''VAST-resolving'' ''wrapperAd'' (events (fetchVAST this given upd t0 t1 est))
           = [Some (dflt (wrapperAd given) JNull)]
     \<and> emitted_field ''VAST-resolved'' ''wrapperDepth'' (events (fetchVAST this given upd t0 t1 est))
           = [case own_field (read_prop data ''details'') ''wrapperDepth'' of
                Some v \<Rightarrow> Some v
              | None \<Rightarrow> Some (dflt (wrapperDepth given) (JNum 0))]
     \<and> emitted_field ''VAST-resolved'' ''previousUrl'' (events (fetchVAST this given upd t0 t1 est))
           = [case own_field (read_prop data ''details'') ''previousUrl'' of
                Some v \<Rightarrow> Some v
              | None \<Rightarrow> Some (dflt (previousUrl given) JNull)]
     \<and> emitted_field ''VAST-resolved'' ''wrapperAd'' (events (fetchVAST this given upd t0 t1 est))
           = [own_field (read_prop data ''details'') ''wrapperAd'']"
proof -
  have resolving: "emitted ''VAST-resolving'' (events (fetchVAST this given upd t0 t1 est)) =
      [resolving_payload u (destructure given) (timeout fo)]"
    using assms(1,2,3,6) by (rule fetchVAST_resolving_and_get(1))
  have resolved: "emitted ''VAST-resolved'' (events (fetchVAST this given upd t0 t1 est)) =
      [resolved_info u (destructure given) data (t1 - t0)]"
    using assms by (rule fetchVAST_resolved_payload)
  show ?thesis
    unfolding emitted_field_def resolving resolved
    by (simp add: own_field_resolved_info destructure_simps split: option.split)
      (simp add: own_field_def resolving_payload_def obj_get_def destructure_simps)
qed

theorem lineage_fields_in_payloads_witness:
  "emitted_field ''VAST-resolving'' ''wrapperAd''
     (events (fetchVAST (configured (answering (sample_result [(''wrapperDepth'', JNum 7)])))
        (sample_request quiet (JObj [(''id'', JStr ''wrapper-1'')]))
        updateEstimatedBitrate 100 150 []))
     = [Some (JObj [(''id'', JStr ''wrapper-1'')])]
   \<and> emitted_field ''VAST-resolved'' ''previousUrl''
     (events (fetchVAST (configured (answering (sample_result [(''wrapperDepth'', JNum 7)])))
        (sample_request quiet (JObj [(''id'', JStr ''wrapper-1'')]))
        updateEstimatedBitrate 100 150 []))
     = [Some JNull]
   \<and> emitted_field ''VAST-resolved'' ''wrapperDepth''
     (events (fetchVAST (configured (answering (sample_result [(''wrapperDepth'', JNum 7)])))
        (sample_request quiet (JObj [(''id'', JStr ''wrapper-1'')]))
        updateEstimatedBitrate 100 150 []))
     = [Some (JNum 7)]
   \<and> emitted_field ''VAST-resolved'' ''wrapperAd''
     (events (fetchVAST (configured (answering (sample_result [(''wrapperDepth'', JNum 7)])))
        (sample_request quiet (JObj [(''id'', JStr ''wrapper-1'')]))
        updateEstimatedBitrate 100 150 []))
     = [None]"
proof -
  have filters: "applyFilters
      (URLTemplateFilters (configured (answering (sample_result [(''wrapperDepth'', JNum 7)]))))
      (url (sample_request quiet (JObj [(''id'', JStr ''wrapper-1'')])))
      = Inr (JStr ''http://a/vast.xml'')"
    by (simp add: example_defs)
  have opts: "fetchingOptions (configured (answering (sample_result [(''wrapperDepth'', JNum 7)])))
      = Some \<lparr>timeout = JNum 120000, withCredentials = JBool False\<rparr>"
    by (simp add: example_defs)
  have handler: "urlHandler (configured (answering (sample_result [(''wrapperDepth'', JNum 7)])))
      = Some (answering (sample_result [(''wrapperDepth'', JNum 7)]))"
    by (simp add: example_defs)
  have fulfilled: "answering (sample_result [(''wrapperDepth'', JNum 7)])
      (JStr ''http://a/vast.xml'') \<lparr>timeout = JNum 120000, withCredentials = JBool False\<rparr>
      = Fulfilled (sample_result [(''wrapperDepth'', JNum 7)])"
    by (simp add: example_defs)
  have object: "\<not> nullish (sample_result [(''wrapperDepth'', JNum 7)])"
    by (simp add: example_defs)
  have returns: "emitter (sample_request quiet (JObj [(''id'', JStr ''wrapper-1'')])) ''VAST-resolving''
      (resolving_payload (JStr ''http://a/vast.xml'')
         (destructure (sample_request quiet (JObj [(''id'', JStr ''wrapper-1'')])))
         (timeout \<lparr>timeout = JNum 120000, withCredentials = JBool False\<rparr>)) = None"
    by (simp add: example_defs)
  from lineage_fields_in_payloads
    [OF filters opts handler fulfilled object returns, of updateEstimatedBitrate 100 150 "[]"]
  show ?thesis
    by (simp add: sample_request_def sample_result_def dflt_def own_field_def obj_get_def)
qed

section \<open>The filter pipeline in a fetch\<close>

text \<open>
  An example against claim C5 as it is stated. With two filters in the pipeline the
  handler is called with the second filter's value on the first one's, and the payload
  of VAST-resolving carries it; the result's details hold a field \<open>url\<close>, and the
  payload of VAST-resolved carries that value under \<open>url\<close> instead.
\<close>

theorem shadowed_url_counterexample:
  "requested
     (events (fetchVAST
        (addURLTemplateFilter (Function (suffixing ''&gdpr=1''))
           (addURLTemplateFilter (Function (suffixing ''?cb=42''))
              (configured (answering (sample_result [(''url'', JStr ''http://shadow/'')])))))
        (sample_request quiet JNull) updateEstimatedBitrate 100 150 []))
     = [JStr ''http://a/vast.xml?cb=42&gdpr=1'']
   \<and> emitted_field ''VAST-resolving'' ''url''
     (events (fetchVAST
        (addURLTemplateFilter (Function (suffixing ''&gdpr=1''))
           (addURLTemplateFilter (Function (suffixing ''?cb=42''))
              (configured (answering (sample_result [(''url'', JStr ''http://shadow/'')])))))
        (sample_request quiet JNull) updateEstimatedBitrate 100 150 []))
     = [Some (JStr ''http://a/vast.xml?cb=42&gdpr=1'')]
   \<and> emitted_field ''VAST-resolved'' ''url''
     (events (fetchVAST
        (addURLTemplateFilter (Function (suffixing ''&gdpr=1''))
           (addURLTemplateFilter (Function (suffixing ''?cb=42''))
              (configured (answering (sample_result [(''url'', JStr ''http://shadow/'')])))))
        (sample_request quiet JNull) updateEstimatedBitrate 100 150 []))
     = [Some (JStr ''http://shadow/'')]"
  by (simp add: run_defs example_defs addURLTemplateFilter_def)

text \<open>
  Claim C5, amended. The filters are applied as a fold from the left with the URL as
  the seed: for filters that return, the outcome is the last filter's value on the value
  of the one before it, and so on down to the first filter's value on the URL. With
  \<open>f1\<close> added and then \<open>f2\<close> to an empty pipeline of a configured fetcher, the pipeline
  is \<open>[f1, f2]\<close>, and where \<open>f1\<close> returns \<open>u1\<close> on the request's URL and \<open>f2\<close> returns
  \<open>u2\<close> on \<open>u1\<close>, the effective URL is \<open>u2\<close>. It is the \<open>url\<close> of the payload of
  VAST-resolving; the handler is called with no other URL, and is called with it once
  the emitter has returned from VAST-resolving. The payload of VAST-resolved carries it
  under \<open>url\<close> unless the result's details have a field \<open>url\<close>, which then takes its
  place.
\<close>

theorem filters_fold_in_insertion_order:
  assumes "URLTemplateFilters base = []"
    and "this = addURLTemplateFilter (Function f2) (addURLTemplateFilter (Function f1) base)"
    and "f1 (url given) = Inr u1"
    and "f2 u1 = Inr u2"
    and "fetchingOptions base = Some fo"
  shows "applyFilters (map (\<lambda>g v. Inr (g v)) gs) u = Inr (fold (\<lambda>g v. g v) gs u)
     \<and> URLTemplateFilters this = [f1, f2]
     \<and> applyFilters (URLTemplateFilters this) (url given) = Inr u2
     \<and> emitted_field ''VAST-resolving'' ''url'' (events (fetchVAST this given upd t0 t1 est))
           = [Some u2]
     \<and> (requested (events (fetchVAST this given upd t0 t1 est)) = []
          \<or> requested (events (fetchVAST this given upd t0 t1 est)) = [u2])
     \<and> (urlHandler base = Some h
          \<and> emitter given ''VAST-resolving''
               (resolving_payload u2 (destructure given) (timeout fo)) = None
         \<longrightarrow> requested (events (fetchVAST this given upd t0 t1 est)) = [u2])
     \<and> (\<forall>data. urlHandler base = Some h
            \<and> emitter given ''VAST-resolving''
                 (resolving_payload u2 (destructure given) (timeout fo)) = None
            \<and> h u2 fo = Fulfilled data \<and> \<not> nullish data
          \<longrightarrow> emitted_field ''VAST-resolved'' ''url'' (events (fetchVAST this given upd t0 t1 est))
                = [case own_field (read_prop data ''details'') ''url'' of
                     Some v \<Rightarrow> Some v
                   | None \<Rightarrow> Some u2])"
proof -
  have fs: "URLTemplateFilters this = [f1, f2]"
    using assms(1,2) by (simp add: addURLTemplateFilter_def)
  have opts: "fetchingOptions this = Some fo"
    using assms(2,5) by (simp add: addURLTemplateFilter_def)
  have handler: "urlHandler this = urlHandler base"
    using assms(2) by (simp add: addURLTemplateFilter_def)
  have app: "applyFilters (URLTemplateFilters this) (url given) = Inr u2"
    using fs assms(3,4) by simp
  have resolving: "emitted_field ''VAST-resolving'' ''url''
      (events (fetchVAST this given upd t0 t1 est)) = [Some u2]"
    using fetchVAST_resolving_emitted [OF app opts, of upd t0 t1 est]
    by (simp add: emitted_field_def own_field_def resolving_payload_def obj_get_def)
  have at_most: "requested (events (fetchVAST this given upd t0 t1 est)) = []
      \<or> requested (events (fetchVAST this given upd t0 t1 est)) = [u2]"
    using app by (rule fetchVAST_requested_at_most)
  have get: "requested (events (fetchVAST this given upd t0 t1 est)) = [u2]"
    if "urlHandler base = Some h"
      "emitter given ''VAST-resolving'' (resolving_payload u2 (destructure given) (timeout fo)) = None"
    using fetchVAST_resolving_and_get(2) [of this given u2 fo h upd t0 t1 est] app opts handler that
    by simp
  have resolved: "emitted_field ''VAST-resolved'' ''url''
      (events (fetchVAST this given upd t0 t1 est))
        = [case own_field (read_prop data ''details'') ''url'' of
             Some v \<Rightarrow> Some v | None \<Rightarrow> Some u2]"
    if "urlHandler base = Some h"
      "emitter given ''VAST-resolving'' (resolving_payload u2 (destructure given) (timeout fo)) = None"
      "h u2 fo = Fulfilled data" "\<not> nullish data" for data
    using fetchVAST_resolved_payload [of this given u2 fo h data upd t0 t1 est] app opts handler that
    by (simp add: emitted_field_def own_field_resolved_info obj_get_def split: option.split)
  from fs app resolving at_most get resolved applyFilters_total [of gs u] show ?thesis by blast
qed

theorem filters_fold_in_insertion_order_witness:
  "URLTemplateFilters
      (addURLTemplateFilter (Function (suffixing ''&gdpr=1''))
         (addURLTemplateFilter (Function (suffixing ''?cb=42''))
            (configured (answering (sample_result [(''byteLength'', JNum 1000)])))))
     = [suffixing ''?cb=42'', suffixing ''&gdpr=1'']
   \<and> requested
     (events (fetchVAST
        (addURLTemplateFilter (Function (suffixing ''&gdpr=1''))
           (addURLTemplateFilter (Function (suffixing ''?cb=42''))
              (configured (answering (sample_result [(''byteLength'', JNum 1000)])))))
        (sample_request quiet JNull) updateEstimatedBitrate 100 150 []))
     = [JStr ''http://a/vast.xml?cb=42&gdpr=1'']
   \<and> emitted_field ''VAST-resolving'' ''url''
     (events (fetchVAST
        (addURLTemplateFilter (Function (suffixing ''&gdpr=1''))
           (addURLTemplateFilter (Function (suffixing ''?cb=42''))
              (configured (answering (sample_result [(''byteLength'', JNum 1000)])))))
        (sample_request quiet JNull) updateEstimatedBitrate 100 150 []))
     = [Some (JStr ''http://a/vast.xml?cb=42&gdpr=1'')]
   \<and> emitted_field ''VAST-resolved'' ''url''
     (events (fetchVAST
        (addURLTemplateFilter (Function (suffixing ''&gdpr=1''))
           (addURLTemplateFilter (Function (suffixing ''?cb=42''))
              (configured (answering (sample_result [(''byteLength'', JNum 1000)])))))
        (sample_request quiet JNull) updateEstimatedBitrate 100 150 []))
     = [Some (JStr ''http://a/vast.xml?cb=42&gdpr=1'')]"
proof -
  let ?base = "configured (answering (sample_result [(''byteLength'', JNum 1000)]))"
  let ?fo = "\<lparr>timeout = JNum 120000, withCredentials = JBool False\<rparr>"
  have empty: "URLTemplateFilters ?base = []"
    by (simp add: example_defs)
  have f1: "suffixing ''?cb=42'' (url (sample_request quiet JNull))
      = Inr (JStr ''http://a/vast.xml?cb=42'')"
    by (simp add: example_defs)
  have f2: "suffixing ''&gdpr=1'' (JStr ''http://a/vast.xml?cb=42'')
      = Inr (JStr ''http://a/vast.xml?cb=42&gdpr=1'')"
    by (simp add: example_defs)
  have opts: "fetchingOptions ?base = Some ?fo"
    by (simp add: example_defs)
  have handler: "urlHandler ?base = Some (answering (sample_result [(''byteLength'', JNum 1000)]))"
    by (simp add: example_defs)
  have returns: "emitter (sample_request quiet JNull) ''VAST-resolving''
      (resolving_payload (JStr ''http://a/vast.xml?cb=42&gdpr=1'')
         (destructure (sample_request quiet JNull)) (timeout ?fo)) = None"
    by (simp add: example_defs)
  have result: "answering (sample_result [(''byteLength'', JNum 1000)])
        (JStr ''http://a/vast.xml?cb=42&gdpr=1'') ?fo
        = Fulfilled (sample_result [(''byteLength'', JNum 1000)])
      \<and> \<not> nullish (sample_result [(''byteLength'', JNum 1000)])"
    by (simp add: example_defs)
  have no_url: "own_field (read_prop (sample_result [(''byteLength'', JNum 1000)]) ''details'') ''url''
      = None"
    by (simp add: example_defs own_field_def)
  from filters_fold_in_insertion_order
    [of ?base _ "suffixing ''&gdpr=1''" "suffixing ''?cb=42''" "sample_request quiet JNull"
        "JStr ''http://a/vast.xml?cb=42''" "JStr ''http://a/vast.xml?cb=42&gdpr=1''" ?fo
        "[]" "JNull" updateEstimatedBitrate 100 150 "[]"
        "answering (sample_result [(''byteLength'', JNum 1000)])",
     OF empty refl f1 f2 opts]
  have "URLTemplateFilters
      (addURLTemplateFilter (Function (suffixing ''&gdpr=1''))
         (addURLTemplateFilter (Function (suffixing ''?cb=42'')) ?base))
     = [suffixing ''?cb=42'', suffixing ''&gdpr=1'']"
    and "requested
     (events (fetchVAST
        (addURLTemplateFilter (Function (suffixing ''&gdpr=1''))
           (addURLTemplateFilter (Function (suffixing ''?cb=42'')) ?base))
        (sample_request quiet JNull) updateEstimatedBitrate 100 150 []))
     = [JStr ''http://a/vast.xml?cb=42&gdpr=1'']"
    and "emitted_field ''VAST-resolving'' ''url''
     (events (fetchVAST
        (addURLTemplateFilter (Function (suffixing ''&gdpr=1''))
           (addURLTemplateFilter (Function (suffixing ''?cb=42'')) ?base))
        (sample_request quiet JNull) updateEstimatedBitrate 100 150 []))
     = [Some (JStr ''http://a/vast.xml?cb=42&gdpr=1'')]"
    and "emitted_field ''VAST-resolved'' ''url''
     (events (fetchVAST
        (addURLTemplateFilter (Function (suffixing ''&gdpr=1''))
           (addURLTemplateFilter (Function (suffixing ''?cb=42'')) ?base))
        (sample_request quiet JNull) updateEstimatedBitrate 100 150 []))
     = [case own_field (read_prop (sample_result [(''byteLength'', JNum 1000)]) ''details'') ''url'' of
          Some v \<Rightarrow> Some v
        | None \<Rightarrow> Some (JStr ''http://a/vast.xml?cb=42&gdpr=1'')]"
    using handler returns result by blast+
  then show ?thesis by (simp add: no_url)
qed

section \<open>The bitrate estimator in a fetch\<close>

text \<open>
  An example against claim C6 as it is stated. The result's details carry a
  \<open>byteLength\<close> and the emitter throws on VAST-resolved: the statement after the
  emission is not reached and the estimator's state is as before, with the estimator
  modelled from the spec and with one that records every call.
\<close>

theorem estimator_not_updated_counterexample:
  "opt_chain (opt_chain (sample_result [(''byteLength'', JNum 1000)]) ''details'') ''byteLength''
     = JNum 1000
   \<and> estimator (fetchVAST (configured (answering (sample_result [(''byteLength'', JNum 1000)])))
        (sample_request (throwing_on ''VAST-resolved'' (Thrown (JStr ''boom''))) JNull)
        updateEstimatedBitrate 100 150 [(JNum 2048, 40)])
     = [(JNum 2048, 40)]
   \<and> estimator (fetchVAST (configured (answering (sample_result [(''byteLength'', JNum 1000)])))
        (sample_request (throwing_on ''VAST-resolved'' (Thrown (JStr ''boom''))) JNull)
        recording 100 150 [(JNum 2048, 40)])
     = [(JNum 2048, 40)]"
  by (simp add: run_defs example_defs recording_def)

text \<open>
  Claim C6, amended. Where the filters return, the fetcher is configured and the
  handler's promise is fulfilled with a result, the estimator's update is called exactly
  when the result is neither undefined nor null and the emitter returns on both events,
  and then with \<^verbatim>\<open>data?.details?.byteLength\<close> and the elapsed time, also when the byte
  length is absent; in every other run the state after the call is the state before it
  (\<open>fetchVAST_estimator_frame\<close> covers the runs without a result). Against the estimator
  modelled from the spec, which ignores an undefined byte length: the state is unchanged
  when details carry no \<open>byteLength\<close>, whatever the emitter does; when \<open>byteLength\<close> is
  present, the sample (byteLength, elapsed time) is added if the emitter returns on both
  events, and the state is unchanged if it throws.
\<close>

theorem estimator_after_fetch:
  assumes "applyFilters (URLTemplateFilters this) (url given) = Inr u"
    and "fetchingOptions this = Some fo"
    and "urlHandler this = Some h"
    and "h u fo = Fulfilled data"
  shows "estimator (fetchVAST this given updateEstimatedBitrate t0 t1 est) =
     (if \<not> nullish data
         \<and> emitter given ''VAST-resolving'' (resolving_payload u (destructure given) (timeout fo)) = None
         \<and> emitter given ''VAST-resolved'' (resolved_info u (destructure given) data (t1 - t0)) = None
         \<and> opt_chain (opt_chain data ''details'') ''byteLength'' \<noteq> JUndefined
      then est @ [(opt_chain (opt_chain data ''details'') ''byteLength'', t1 - t0)]
      else est)
   \<and> estimator (fetchVAST this given upd t0 t1 est) =
     (if \<not> nullish data
         \<and> emitter given ''VAST-resolving'' (resolving_payload u (destructure given) (timeout fo)) = None
         \<and> emitter given ''VAST-resolved'' (resolved_info u (destructure given) data (t1 - t0)) = None
      then (case upd (opt_chain (opt_chain data ''details'') ''byteLength'') (t1 - t0) est of
              Inl e \<Rightarrow> est | Inr est' \<Rightarrow> est')
      else est)"
proof
  show "estimator (fetchVAST this given updateEstimatedBitrate t0 t1 est) =
     (if \<not> nullish data
         \<and> emitter given ''VAST-resolving'' (resolving_payload u (destructure given) (timeout fo)) = None
         \<and> emitter given ''VAST-resolved'' (resolved_info u (destructure given) data (t1 - t0)) = None
         \<and> opt_chain (opt_chain data ''details'') ''byteLength'' \<noteq> JUndefined
      then est @ [(opt_chain (opt_chain data ''details'') ''byteLength'', t1 - t0)]
      else est)"
    by (simp add: fetchVAST_estimator [OF assms] updateEstimatedBitrate_def)
  show "estimator (fetchVAST this given upd t0 t1 est) =
     (if \<not> nullish data
         \<and> emitter given ''VAST-resolving'' (resolving_payload u (destructure given) (timeout fo)) = None
         \<and> emitter given ''VAST-resolved'' (resolved_info u (destructure given) data (t1 - t0)) = None
      then (case upd (opt_chain (opt_chain data ''details'') ''byteLength'') (t1 - t0) est of
              Inl e \<Rightarrow> est | Inr est' \<Rightarrow> est')
      else est)"
    by (rule fetchVAST_estimator [OF assms])
qed

theorem estimator_after_fetch_witness:
  "estimator (fetchVAST (configured (answering (sample_result [])))
        (sample_request quiet JNull) updateEstimatedBitrate 100 150 [(JNum 2048, 40)])
     = [(JNum 2048, 40)]
   \<and> estimator (fetchVAST (configured (answering (sample_result [(''byteLength'', JNum 1000)])))
        (sample_request quiet JNull) updateEstimatedBitrate 100 150 [(JNum 2048, 40)])
     = [(JNum 2048, 40), (JNum 1000, 50)]
   \<and> estimator (fetchVAST (configured (answering (sample_result [(''byteLength'', JNum 1000)])))
        (sample_request (throwing_on ''VAST-resolved'' (Thrown (JStr ''boom''))) JNull)
        updateEstimatedBitrate 100 150 [(JNum 2048, 40)])
     = [(JNum 2048, 40)]
   \<and> estimator (fetchVAST (configured (answering (sample_result [])))
        (sample_request quiet JNull) recording 100 150 [(JNum 2048, 40)])
     = [(JNum 2048, 40), (JUndefined, 50)]"
proof -
  let ?fo = "\<lparr>timeout = JNum 120000, withCredentials = JBool False\<rparr>"
  let ?u = "JStr ''http://a/vast.xml''"
  have filters: "applyFilters (URLTemplateFilters (configured (answering d)))
      (url (sample_request em JNull)) = Inr ?u" for d em
    by (simp add: example_defs)
  have opts: "fetchingOptions (configured (answering d)) = Some ?fo" for d
    by (simp add: example_defs)
  have handler: "urlHandler (configured (answering d)) = Some (answering d)" for d
    by (simp add: example_defs)
  have fulfilled: "answering d ?u ?fo = Fulfilled d" for d
    by (simp add: example_defs)
  note run = estimator_after_fetch [OF filters opts handler fulfilled]
  have absent: "opt_chain (opt_chain (sample_result []) ''details'') ''byteLength'' = JUndefined"
    by (simp add: example_defs)
  have present: "opt_chain (opt_chain (sample_result [(''byteLength'', JNum 1000)]) ''details'')
      ''byteLength'' = JNum 1000"
    by (simp add: example_defs)
  have object: "\<not> nullish (sample_result ds)" for ds
    by (simp add: sample_result_def nullish_def)
  have quiet: "emitter (sample_request quiet JNull) n p = None" for n p
    by (simp add: sample_request_def quiet_def)
  have throws: "emitter (sample_request (throwing_on ''VAST-resolved'' (Thrown (JStr ''boom''))) JNull)
      ''VAST-resolved'' p = Some (Thrown (JStr ''boom''))" for p
    by (simp add: sample_request_def throwing_on_def)
  have a: "estimator (fetchVAST (configured (answering (sample_result [])))
        (sample_request quiet JNull) updateEstimatedBitrate 100 150 [(JNum 2048, 40)])
     = [(JNum 2048, 40)]"
    using run [of "sample_result []" quiet 100 150 "[(JNum 2048, 40)]" recording]
    by (simp add: absent)
  have b: "estimator (fetchVAST (configured (answering (sample_result [(''byteLength'', JNum 1000)])))
        (sample_request quiet JNull) updateEstimatedBitrate 100 150 [(JNum 2048, 40)])
     = [(JNum 2048, 40), (JNum 1000, 50)]"
    using run [of "sample_result [(''byteLength'', JNum 1000)]" quiet 100 150 "[(JNum 2048, 40)]"
        recording]
    by (simp add: present object quiet)
  have c: "estimator (fetchVAST (configured (answering (sample_result [(''byteLength'', JNum 1000)])))
        (sample_request (throwing_on ''VAST-resolved'' (Thrown (JStr ''boom''))) JNull)
        updateEstimatedBitrate 100 150 [(JNum 2048, 40)])
     = [(JNum 2048, 40)]"
    using run [of "sample_result [(''byteLength'', JNum 1000)]"
        "throwing_on ''VAST-resolved'' (Thrown (JStr ''boom''))" 100 150 "[(JNum 2048, 40)]"
        recording]
    by (simp add: throws)
  have d: "estimator (fetchVAST (configured (answering (sample_result [])))
        (sample_request quiet JNull) recording 100 150 [(JNum 2048, 40)])
     = [(JNum 2048, 40), (JUndefined, 50)]"
    using run [of "sample_result []" quiet 100 150 "[(JNum 2048, 40)]" recording]
    by (simp add: absent object quiet recording_def)
  from a b c d show ?thesis by blast
qed

section \<open>The order of the events\<close>

text \<open>
  Claim C7. In every call, whatever the collaborators do, no call of the handler and no
  emission of VAST-resolved comes before the emission of VAST-resolving. When the filters
  return and the fetcher is configured, the first event of the call is the emission of
  VAST-resolving with the effective URL, \<open>previousUrl\<close>, \<open>wrapperDepth\<close>,
  \<open>maxWrapperDepth\<close>, the configured timeout and \<open>wrapperAd\<close>; when moreover the emitter
  returns from it, the second event is the call of the handler.
\<close>

theorem resolving_is_emitted_first:
  "resolving_first (events (fetchVAST this given upd t0 t1 est))
   \<and> (applyFilters (URLTemplateFilters this) (url given) = Inr u \<and> fetchingOptions this = Some fo
        \<longrightarrow> take 1 (events (fetchVAST this given upd t0 t1 est)) =
              [Emit ''VAST-resolving''
                 (JObj [(''url'', u),
                        (''previousUrl'', dflt (previousUrl given) JNull),
                        (''wrapperDepth'', dflt (wrapperDepth given) (JNum 0)),
                        (''maxWrapperDepth'', maxWrapperDepth given),
                        (''timeout'', timeout fo),
                        (''wrapperAd'', dflt (wrapperAd given) JNull)])])
   \<and> (applyFilters (URLTemplateFilters this) (url given) = Inr u \<and> fetchingOptions this = Some fo
        \<and> urlHandler this = Some h
        \<and> emitter given ''VAST-resolving''
             (resolving_payload u (destructure given) (timeout fo)) = None
        \<longrightarrow> drop 1 (take 2 (events (fetchVAST this given upd t0 t1 est))) = [Get u fo])"
  using fetchVAST_resolving_first [of this given upd t0 t1 est]
    fetchVAST_first_event [of this given u fo upd t0 t1 est]
    fetchVAST_first_two_events [of this given u fo h upd t0 t1 est]
  by (simp add: resolving_payload_def destructure_simps)

theorem resolving_is_emitted_first_witness:
  "resolving_first
     (events (fetchVAST (configured (answering (sample_result [(''byteLength'', JNum 1000)])))
        (sample_request quiet JNull) updateEstimatedBitrate 100 150 []))
   \<and> take 2
     (events (fetchVAST (configured (answering (sample_result [(''byteLength'', JNum 1000)])))
        (sample_request quiet JNull) updateEstimatedBitrate 100 150 []))
     = [Emit ''VAST-resolving''
          (JObj [(''url'', JStr ''http://a/vast.xml''), (''previousUrl'', JNull),
                 (''wrapperDepth'', JNum 0), (''maxWrapperDepth'', JNum 1),
                 (''timeout'', JNum 120000), (''wrapperAd'', JNull)]),
        Get (JStr ''http://a/vast.xml'')
          \<lparr>timeout = JNum 120000, withCredentials = JBool False\<rparr>]"
proof -
  let ?evs = "events (fetchVAST (configured (answering (sample_result [(''byteLength'', JNum 1000)])))
        (sample_request quiet JNull) updateEstimatedBitrate 100 150 [])"
  have filters: "applyFilters
      (URLTemplateFilters (configured (answering (sample_result [(''byteLength'', JNum 1000)]))))
      (url (sample_request quiet JNull)) = Inr (JStr ''http://a/vast.xml'')"
    by (simp add: example_defs)
  have opts: "fetchingOptions (configured (answering (sample_result [(''byteLength'', JNum 1000)])))
      = Some \<lparr>timeout = JNum 120000, withCredentials = JBool False\<rparr>"
    by (simp add: example_defs)
  have handler: "urlHandler (configured (answering (sample_result [(''byteLength'', JNum 1000)])))
      = Some (answering (sample_result [(''byteLength'', JNum 1000)]))"
    by (simp add: example_defs)
  have returns: "emitter (sample_request quiet JNull) ''VAST-resolving''
      (resolving_payload (JStr ''http://a/vast.xml'') (destructure (sample_request quiet JNull))
         (timeout \<lparr>timeout = JNum 120000, withCredentials = JBool False\<rparr>)) = None"
    by (simp add: example_defs)
  from resolving_is_emitted_first
    [of "configured (answering (sample_result [(''byteLength'', JNum 1000)]))"
        "sample_request quiet JNull" updateEstimatedBitrate 100 150 "[]"
        "JStr ''http://a/vast.xml''"
        "\<lparr>timeout = JNum 120000, withCredentials = JBool False\<rparr>"
        "answering (sample_result [(''byteLength'', JNum 1000)])"]
    filters opts handler returns
  have first: "resolving_first ?evs"
    and one: "take 1 ?evs = [Emit ''VAST-resolving''
          (JObj [(''url'', JStr ''http://a/vast.xml''), (''previousUrl'', JNull),
                 (''wrapperDepth'', JNum 0), (''maxWrapperDepth'', JNum 1),
                 (''timeout'', JNum 120000), (''wrapperAd'', JNull)])]"
    and two: "drop 1 (take 2 ?evs) = [Get (JStr ''http://a/vast.xml'')
          \<lparr>timeout = JNum 120000, withCredentials = JBool False\<rparr>]"
    by (simp_all add: sample_request_def dflt_def)
  have "take 2 ?evs = take 1 (take 2 ?evs) @ drop 1 (take 2 ?evs)"
    by (simp only: append_take_drop_id)
  also have "take 1 (take 2 ?evs) = take 1 ?evs"
    by (simp add: min_def)
  finally show ?thesis using first one two by simp
qed

section \<open>Counting the filters\<close>

text \<open>
  An example against claim C8 as it is stated. A removal on the empty pipeline followed
  by an add leaves one filter, while the successful adds minus the removals since the
  last clear, floored at 0, is 0.
\<close>

theorem count_formula_counterexample:
  "countURLTemplateFilters
     (fold apply_op [RemoveLast, Add (Function (suffixing ''?cb=1''))] constructor) = 1
   \<and> spec_count [RemoveLast, Add (Function (suffixing ''?cb=1''))] = 0"
  by (simp add: spec_count_def countURLTemplateFilters_def constructor_def
      removeURLTemplateFilter_def addURLTemplateFilter_def)

text \<open>
  Claim C8, amended. After every sequence of add, removeLast and clear from the empty
  pipeline, the count is the value of the counter that goes up by one on a successful
  add, down by one on a removal unless it is 0 already, and back to 0 on a clear: the
  floor applies at each removal, not to the final difference. The count is never
  negative and never below the difference the spec words; a removal on an empty pipeline
  changes nothing, and a clear leaves the count 0.
\<close>

theorem count_is_saturating_counter:
  "int (countURLTemplateFilters (fold apply_op ops constructor)) = fold counter_step ops 0
   \<and> 0 \<le> fold counter_step ops 0
   \<and> spec_count ops \<le> int (countURLTemplateFilters (fold apply_op ops constructor))
   \<and> removeURLTemplateFilter (clearURLTemplateFilters this) = clearURLTemplateFilters this
   \<and> countURLTemplateFilters (clearURLTemplateFilters this) = 0"
  using count_fold_apply_op [of ops constructor] counter_nonneg [of 0 ops]
    counter_above_difference [of 0 "[]" ops]
  by (simp add: countURLTemplateFilters_def constructor_def clearURLTemplateFilters_def
      removeURLTemplateFilter_def spec_count_def)

text \<open>
  Claim C9. Adding an argument that is not a function changes nothing: the fetcher, its
  filter sequence and its count are as before. The operation has no error result.
\<close>

theorem add_non_callable_is_noop:
  "typeof a \<noteq> ''function'' \<Longrightarrow>
     addURLTemplateFilter a this = this
     \<and> URLTemplateFilters (addURLTemplateFilter a this) = URLTemplateFilters this
     \<and> countURLTemplateFilters (addURLTemplateFilter a this) = countURLTemplateFilters this"
  by (simp add: addURLTemplateFilter_def)

theorem add_non_callable_is_noop_witness:
  "typeof (Value (JStr ''not a function'')) \<noteq> ''function''
   \<and> addURLTemplateFilter (Value (JStr ''not a function'')) (configured (answering JNull))
       = configured (answering JNull)
   \<and> countURLTemplateFilters
        (addURLTemplateFilter (Value (JStr ''not a function'')) (configured (answering JNull))) = 0"
  using add_non_callable_is_noop
    [of "Value (JStr ''not a function'')" "configured (answering JNull)"]
  by (simp add: countURLTemplateFilters_def configured_def setOptions_def constructor_def)

section \<open>Configuration\<close>

text \<open>
  Claim C10. For an options object whose timeout is falsy (undefined, null, false, 0,
  NaN or the empty string), the configured timeout is the default constant; a falsy
  withCredentials is configured as false. A timeout of 0 in particular gives the default
  constant, and with a default constant that is not falsy itself no options object
  makes 0 the configured timeout.
\<close>

theorem setOptions_falsy_defaults:
  "(\<not> truthy (o_timeout opts) \<longrightarrow>
      map_option timeout (fetchingOptions (setOptions h D (Some opts) this)) = Some D)
   \<and> (\<not> truthy (o_withCredentials opts) \<longrightarrow>
      map_option withCredentials (fetchingOptions (setOptions h D (Some opts) this))
        = Some (JBool False))
   \<and> map_option timeout
        (fetchingOptions (setOptions h D (Some (opts\<lparr>o_timeout := JNum 0\<rparr>)) this)) = Some D
   \<and> (truthy D \<longrightarrow>
        map_option timeout (fetchingOptions (setOptions h D (Some opts) this)) \<noteq> Some (JNum 0))"
  by (auto simp add: setOptions_def js_or_def Let_def)

theorem setOptions_falsy_defaults_witness:
  "\<not> truthy (o_timeout (no_options\<lparr>o_timeout := JNum 0, o_withCredentials := JStr []\<rparr>))
   \<and> \<not> truthy (o_withCredentials (no_options\<lparr>o_timeout := JNum 0, o_withCredentials := JStr []\<rparr>))
   \<and> truthy (JNum 120000)
   \<and> map_option timeout (fetchingOptions
        (setOptions (answering JNull) (JNum 120000)
           (Some (no_options\<lparr>o_timeout := JNum 0, o_withCredentials := JStr []\<rparr>)) constructor))
       = Some (JNum 120000)
   \<and> map_option withCredentials (fetchingOptions
        (setOptions (answering JNull) (JNum 120000)
           (Some (no_options\<lparr>o_timeout := JNum 0, o_withCredentials := JStr []\<rparr>)) constructor))
       = Some (JBool False)
   \<and> map_option timeout (fetchingOptions
        (setOptions (answering JNull) (JNum 120000)
           (Some (no_options\<lparr>o_timeout := JNum 0, o_withCredentials := JStr []\<rparr>)) constructor))
       \<noteq> Some (JNum 0)"
proof -
  let ?opts = "no_options\<lparr>o_timeout := JNum 0, o_withCredentials := JStr []\<rparr>"
  have falsy: "\<not> truthy (o_timeout ?opts)" "\<not> truthy (o_withCredentials ?opts)"
    by (simp_all add: no_options_def)
  have default: "truthy (JNum 120000)"
    by simp
  from setOptions_falsy_defaults [of ?opts "answering JNull" "JNum 120000" constructor]
    falsy default
  show ?thesis by blast
qed

end
